theory Spec2Isabelle
  imports Main "HOL-Library.Sublist"
begin

section \<open>Data model\<close>

text \<open>
  The share manager of \<^verbatim>\<open>backend/dataall/tasks/share_manager.py\<close> works on rows of
  a relational store and on five cloud services. The rows it reads are records here, with
  the attribute names of the source behind a prefix that tells the records apart.
\<close>

datatype ShareObjectStatus =
    PendingApproval | Approved | Rejected
  | Share_In_Progress | Share_Succeeded | Share_Failed
  | Revoke_In_Progress | Revoke_Share_Succeeded | Revoke_Share_Failed

record Environment =
  env_environmentUri :: string
  env_name :: string
  env_AwsAccountId :: string
  env_region :: string
  env_dashboardsEnabled :: bool

record EnvironmentGroup =
  grp_environmentIAMRoleArn :: string
  grp_environmentIAMRoleName :: string

record Dataset =
  ds_datasetUri :: string
  ds_environmentUri :: string
  ds_SamlAdminGroupName :: string
  ds_AwsAccountId :: string
  ds_region :: string
  ds_GlueDatabaseName :: string
  ds_S3BucketName :: string
  ds_KmsAlias :: string
  ds_IAMDatasetAdminRoleArn :: string

record ShareObject =
  so_shareUri :: string
  so_datasetUri :: string
  so_environmentUri :: string
  so_principalId :: string
  so_status :: ShareObjectStatus

record DatasetTable =
  tbl_tableUri :: string
  tbl_GlueDatabaseName :: string
  tbl_GlueTableName :: string

record DatasetStorageLocation =
  loc_locationUri :: string
  loc_AWSAccountId :: string
  loc_region :: string
  loc_S3BucketName :: string
  loc_S3Prefix :: string

record ShareObjectItem =
  item_shareUri :: string
  item_itemUri :: string
  item_status :: ShareObjectStatus
  item_S3AccessPointName :: string
  item_GlueTableName :: string

text \<open>What \<^verbatim>\<open>get_share_item\<close> is given: a table or a folder.\<close>

datatype share_category = CatTable DatasetTable | CatFolder DatasetStorageLocation


section \<open>Exceptions\<close>

text \<open>
  A botocore \<^verbatim>\<open>ClientError\<close> carries \<^verbatim>\<open>response['Error']['Code']\<close> and
  \<^verbatim>\<open>['Message']\<close>. The other constructors are the Python exceptions the modelled
  code can raise.
\<close>

record ClientError =
  err_Code :: string
  err_Message :: string

datatype exn =
    ClientErr ClientError
  | ObjectNotFound string string
  | KeyError string
  | IndexError
  | ValueError
  | AttributeError
  | TypeError
  | Exception string


section \<open>Policy documents\<close>

text \<open>
  A JSON policy document: a version and a list of statements. A resource, an action or
  a condition value is serialised either as one string or as a list of strings; both
  forms are kept apart, as the code branches on them. A \<^verbatim>\<open>Condition\<close> is a
  dictionary of dictionaries, kept as association lists in insertion order.
\<close>

datatype strs = Str string | Strs "string list"

datatype principal = PrincipalStr string | PrincipalAWS string

record statement =
  st_Sid :: "string option"
  st_Effect :: string
  st_Principal :: "principal option"
  st_Action :: strs
  st_Resource :: strs
  st_Condition :: "(string \<times> (string \<times> strs) list) list"

record policy =
  pol_Version :: string
  pol_Statement :: "statement list"


section \<open>Lake Formation requests and answers\<close>

datatype lf_resource =
    Table string string string
  | TableWithColumns string string string
  | Database string

text \<open>
  A batch entry. \<^verbatim>\<open>Id\<close> is \<^verbatim>\<open>str(uuid.uuid4())\<close> in the source; the model draws
  the identifiers from a counter of the world, so the \<open>n\<close>-th identifier drawn is \<open>n\<close>.
\<close>

record entry =
  ent_Id :: nat
  ent_Principal :: string
  ent_Resource :: lf_resource
  ent_Permissions :: "string list"
  ent_PermissionsWithGrantOption :: "string list option"

text \<open>One element of \<^verbatim>\<open>response['Failures']\<close>: its \<^verbatim>\<open>['Error']\<close> dictionary.\<close>

record failure =
  fail_ErrorCode :: string
  fail_ErrorMessage :: string

record grant =
  gr_Principal :: string
  gr_Resource :: lf_resource
  gr_Permissions :: "string list"
  gr_PermissionsWithGrantOption :: "string list option"

datatype alarm =
    table_sharing_failure DatasetTable ShareObject Environment
  | folder_sharing_failure DatasetStorageLocation ShareObject Environment
  | revoke_sharing_failure DatasetTable ShareObject Environment
  | revoke_folder_sharing_failure "DatasetStorageLocation option" ShareObject Environment

text \<open>The static methods of \<^verbatim>\<open>ShareManager\<close> that the two entry points call.\<close>

datatype phase =
    ph_get_share_data
  | ph_add_quicksight_group
  | ph_share_tables
  | ph_clean_shared_database
  | ph_share_folders
  | ph_clean_shared_folders
  | ph_revoke_resource_links_access_on_target_account
  | ph_delete_resource_links_on_target_account
  | ph_revoke_external_account_access_on_source_account
  | ph_revoke_shared_folders


section \<open>The world\<close>

text \<open>
  Everything outside the share manager is one record, passed through every call.

  \<^item> The relational session: the rows of the tables the source queries itself, and the
    helpers of \<^verbatim>\<open>db.api\<close>, which are not part of the file and are taken as they
    come (a function from their arguments to their result or exception).
  \<^item> The policy stores (bucket, access point, role, key) and the Glue catalog hold
    state: what is put is what is read back. A stored policy is the parsed document;
    \<^verbatim>\<open>json.loads\<close> of \<^verbatim>\<open>json.dumps\<close> is taken to be the identity.
  \<^item> The answers of Lake Formation and of the resource-share service are a script: the
    \<open>n\<close>-th call of an operation gets the \<open>n\<close>-th answer, an empty script answers
    with success. The script is arbitrary, so whatever the service answers during a run
    is covered; every request is logged with its arguments.
  \<^item> \<^verbatim>\<open>time.sleep\<close> and logging have no effect on the model.
\<close>

record world =
  \<comment> \<open>relational session\<close>
  db_ShareObject :: "ShareObject list"
  db_Dataset :: "Dataset list"
  db_Environment :: "Environment list"
  db_ShareObjectItem :: "ShareObjectItem list"
  api_get_environment_by_uri :: "string \<Rightarrow> exn + Environment"
  api_get_dataset_tables_shared_with_env ::
    "string \<Rightarrow> string \<Rightarrow> ShareObjectStatus list \<Rightarrow> DatasetTable list"
  api_get_dataset_locations_shared_with_env ::
    "string \<Rightarrow> string \<Rightarrow> ShareObjectStatus list \<Rightarrow> DatasetStorageLocation list"
  api_get_environment_group :: "string \<Rightarrow> string \<Rightarrow> EnvironmentGroup option"
  api_get_location_by_s3_prefix ::
    "string \<Rightarrow> string \<Rightarrow> string \<Rightarrow> DatasetStorageLocation option"
  \<comment> \<open>Lake Formation, resource shares, Quicksight\<close>
  lf_revoke_answers :: "(ClientError + failure list) list"
  lf_revoke_calls :: "((string \<times> string) \<times> string \<times> entry list) list"
  lf_grant_answers :: "ClientError option list"
  lf_grant_calls :: "((string \<times> string) \<times> grant) list"
  ram_list_answers :: "(ClientError + string list) list"
  ram_accept_answers :: "ClientError option list"
  ram_accept_calls :: "string list"
  quicksight_group :: "string \<Rightarrow> ClientError + string option"
  uuid_counter :: nat
  \<comment> \<open>Glue catalog: account, region, database to table names\<close>
  glue_tables :: "string \<times> string \<times> string \<Rightarrow> string list"
  \<comment> \<open>role identities\<close>
  sts_role_id :: "string \<Rightarrow> string \<Rightarrow> string"
  sts_role_ids :: "string \<Rightarrow> string list \<Rightarrow> string list"
  sts_delegation_role_arn :: "string \<Rightarrow> string"
  \<comment> \<open>object store\<close>
  s3_bucket_policy :: "string \<times> string \<Rightarrow> policy option"
  s3_access_point_arn :: "string \<times> string \<Rightarrow> string option"
  s3_new_access_point_arn :: "string \<Rightarrow> string \<Rightarrow> string \<Rightarrow> string"
  s3_access_point_policy :: "string \<times> string \<Rightarrow> policy option"
  \<comment> \<open>role policies and key policies\<close>
  iam_role_policy :: "string \<times> string \<times> string \<Rightarrow> policy option"
  iam_update_calls :: "((string \<times> string \<times> string) \<times> policy option) list"
  kms_key_id :: "string \<Rightarrow> string \<Rightarrow> string"
  kms_key_policy :: "string \<times> string \<times> string \<Rightarrow> policy option"
  \<comment> \<open>alarms raised, and the methods entered\<close>
  alarms :: "alarm list"
  trace :: "phase list"

definition empty_world :: world where
  "empty_world = \<lparr>
     db_ShareObject = [], db_Dataset = [], db_Environment = [], db_ShareObjectItem = [],
     api_get_environment_by_uri = (\<lambda>uri. Inl (ObjectNotFound ''Environment'' uri)),
     api_get_dataset_tables_shared_with_env = (\<lambda>d e s. []),
     api_get_dataset_locations_shared_with_env = (\<lambda>d e s. []),
     api_get_environment_group = (\<lambda>g e. None),
     api_get_location_by_s3_prefix = (\<lambda>p a r. None),
     lf_revoke_answers = [], lf_revoke_calls = [],
     lf_grant_answers = [], lf_grant_calls = [],
     ram_list_answers = [], ram_accept_answers = [], ram_accept_calls = [],
     quicksight_group = (\<lambda>a. Inr None), uuid_counter = 0,
     glue_tables = (\<lambda>k. []),
     sts_role_id = (\<lambda>a r. r), sts_role_ids = (\<lambda>a rs. rs),
     sts_delegation_role_arn = (\<lambda>a. ''pivot''),
     s3_bucket_policy = (\<lambda>k. None), s3_access_point_arn = (\<lambda>k. None),
     s3_new_access_point_arn = (\<lambda>a b n. ''arn:aws:s3:::accesspoint/'' @ n),
     s3_access_point_policy = (\<lambda>k. None),
     iam_role_policy = (\<lambda>k. None), iam_update_calls = [],
     kms_key_id = (\<lambda>a k. k), kms_key_policy = (\<lambda>k. None),
     alarms = [], trace = [] \<rparr>"

definition enter :: "phase \<Rightarrow> world \<Rightarrow> world" where
  "enter p w = w\<lparr>trace := trace w @ [p]\<rparr>"

definition uuid4 :: "world \<Rightarrow> nat \<times> world" where
  "uuid4 w = (uuid_counter w, w\<lparr>uuid_counter := Suc (uuid_counter w)\<rparr>)"


section \<open>Batch revoke\<close>

text \<open>
  \<^verbatim>\<open>client.batch_revoke_permissions(CatalogId=accountid, Entries=entries_chunk)\<close>:
  the request is logged and answered by the head of the script, with a
  \<^verbatim>\<open>ClientError\<close> or with the list under \<^verbatim>\<open>'Failures'\<close>.
\<close>

definition lf_batch_revoke_permissions ::
  "string \<times> string \<Rightarrow> string \<Rightarrow> entry list \<Rightarrow> world \<Rightarrow> (ClientError + failure list) \<times> world" where
  "lf_batch_revoke_permissions client CatalogId Entries w =
     (let w' = w\<lparr>lf_revoke_calls := lf_revoke_calls w @ [(client, CatalogId, Entries)]\<rparr>
      in case lf_revoke_answers w of
           [] \<Rightarrow> (Inr [], w')
         | r # rs \<Rightarrow> (r, w'\<lparr>lf_revoke_answers := rs\<rparr>))"

text \<open>\<^verbatim>\<open>[entries[i : i + 20] for i in range(0, len(entries), 20)]\<close>\<close>

definition entries_chunks :: "'a list \<Rightarrow> 'a list list" where
  "entries_chunks entries =
     map (\<lambda>i. take 20 (drop i entries))
       (map (\<lambda>k. 20 * k) [0 ..< (length entries + 19) div 20])"

text \<open>
  The loop of the \<^verbatim>\<open>try\<close> block: it stops at the first chunk whose request raises,
  with the failures gathered so far.
\<close>

fun revoke_chunks ::
  "string \<times> string \<Rightarrow> string \<Rightarrow> entry list list \<Rightarrow> failure list \<Rightarrow> world
     \<Rightarrow> (ClientError option \<times> failure list) \<times> world" where
  "revoke_chunks client accountid [] failures w = ((None, failures), w)"
| "revoke_chunks client accountid (entries_chunk # rest) failures w =
     (case lf_batch_revoke_permissions client accountid entries_chunk w of
        (Inl e, w') \<Rightarrow> ((Some e, failures), w')
      | (Inr response_Failures, w') \<Rightarrow>
          revoke_chunks client accountid rest (failures @ response_Failures) w')"

text \<open>
  The condition of the \<^verbatim>\<open>except\<close> block, without its negation: the failure says
  that there was nothing to revoke.
\<close>

definition benign :: "failure \<Rightarrow> bool" where
  "benign f \<longleftrightarrow>
     fail_ErrorCode f = ''InvalidInputException''
     \<and> (sublist ''Grantee has no permissions'' (fail_ErrorMessage f)
        \<or> sublist ''No permissions revoked'' (fail_ErrorMessage f))"

text \<open>\<^verbatim>\<open>for failure in failures: if not (...): raise e\<close>\<close>

fun reraise_on_failures :: "ClientError \<Rightarrow> failure list \<Rightarrow> exn + unit" where
  "reraise_on_failures e [] = Inr ()"
| "reraise_on_failures e (f # fs) =
     (if \<not> benign f then Inl (ClientErr e) else reraise_on_failures e fs)"

text \<open>
  The error the function raises itself when failures were reported. The source appends
  the rendering of the failures list to the message; the model keeps the fixed part.
\<close>

definition ended_with_failures :: ClientError where
  "ended_with_failures =
     \<lparr> err_Code = ''LakeFormation.batch_revoke_permissions'',
       err_Message = ''Operation ended with failures: '' \<rparr>"

definition batch_revoke_permissions ::
  "string \<times> string \<Rightarrow> string \<Rightarrow> entry list \<Rightarrow> world \<Rightarrow> (exn + unit) \<times> world" where
  "batch_revoke_permissions client accountid entries w =
     (case revoke_chunks client accountid (entries_chunks entries) [] w of
        ((Some e, failures), w') \<Rightarrow> (reraise_on_failures e failures, w')
      | ((None, failures), w') \<Rightarrow>
          if failures \<noteq> [] then (reraise_on_failures ended_with_failures failures, w')
          else (Inr (), w'))"

text \<open>The failures the service reported before the loop ended.\<close>

definition reported_failures ::
  "string \<times> string \<Rightarrow> string \<Rightarrow> entry list \<Rightarrow> world \<Rightarrow> failure list" where
  "reported_failures client accountid entries w =
     snd (fst (revoke_chunks client accountid (entries_chunks entries) [] w))"

text \<open>
  What the script makes of them: the answers to the first \<open>n\<close> requests, read up to
  the first one that raises.
\<close>

fun failures_before_error :: "(ClientError + failure list) list \<Rightarrow> failure list" where
  "failures_before_error [] = []"
| "failures_before_error (Inl e # rest) = []"
| "failures_before_error (Inr fs # rest) = fs @ failures_before_error rest"


section \<open>The table workflow\<close>

text \<open>The dictionary \<^verbatim>\<open>data\<close> with its \<^verbatim>\<open>'source'\<close> and \<^verbatim>\<open>'target'\<close> parts.\<close>

record table_data =
  source_accountid :: string
  source_region :: string
  source_database :: string
  source_tablename :: string
  target_accountid :: string
  target_region :: string
  target_principals :: "string list"

definition revoke_iamallowedgroups_super_permission_from_table ::
  "string \<times> string \<Rightarrow> string \<Rightarrow> string \<Rightarrow> string \<Rightarrow> world \<Rightarrow> (exn + unit) \<times> world" where
  "revoke_iamallowedgroups_super_permission_from_table client accountid database table w =
     (case uuid4 w of (uid, w1) \<Rightarrow>
        (case batch_revoke_permissions client accountid
                [\<lparr> ent_Id = uid, ent_Principal = ''EVERYONE'',
                   ent_Resource = Table database table accountid,
                   ent_Permissions = [''ALL''],
                   ent_PermissionsWithGrantOption = Some [] \<rparr>] w1 of
           (Inr u, w2) \<Rightarrow> (Inr (), w2)
         | (Inl (ClientErr e), w2) \<Rightarrow> (Inr (), w2)
         | (Inl other, w2) \<Rightarrow> (Inl other, w2)))"

text \<open>\<^verbatim>\<open>client.grant_permissions(**grant)\<close>: logged, answered by the script.\<close>

definition lf_grant_permissions ::
  "string \<times> string \<Rightarrow> grant \<Rightarrow> world \<Rightarrow> ClientError option \<times> world" where
  "lf_grant_permissions client g w =
     (let w' = w\<lparr>lf_grant_calls := lf_grant_calls w @ [(client, g)]\<rparr>
      in case lf_grant_answers w of
           [] \<Rightarrow> (None, w')
         | r # rs \<Rightarrow> (r, w'\<lparr>lf_grant_answers := rs\<rparr>))"

text \<open>
  \<^verbatim>\<open>grant_permissions_to_table\<close> adds \<^verbatim>\<open>PermissionsWithGrantOption\<close> only when the
  argument is a non-empty list, and logs a \<^verbatim>\<open>ClientError\<close> without raising it.
\<close>

definition grant_permissions_to_table ::
  "string \<times> string \<Rightarrow> string \<Rightarrow> string \<Rightarrow> string \<Rightarrow> string list \<Rightarrow> string list option
     \<Rightarrow> world \<Rightarrow> (exn + unit) \<times> world" where
  "grant_permissions_to_table client principal_id database_name table_name permissions
       permissions_with_grant_options w =
     (let grant_dict =
            \<lparr> gr_Principal = principal_id,
              gr_Resource = Table database_name table_name [],
              gr_Permissions = permissions,
              gr_PermissionsWithGrantOption =
                (case permissions_with_grant_options of
                   None \<Rightarrow> None
                 | Some ps \<Rightarrow> if ps \<noteq> [] then Some ps else None) \<rparr>
      in case lf_grant_permissions client grant_dict w of
           (None, w') \<Rightarrow> (Inr (), w')
         | (Some e, w') \<Rightarrow> (Inr (), w'))"

text \<open>
  \<^verbatim>\<open>share_table_with_target_account\<close>: the revoke of the legacy grant, then the
  cross-account grant; a \<^verbatim>\<open>ClientError\<close> of either would be raised again.
\<close>

definition share_table_with_target_account :: "table_data \<Rightarrow> world \<Rightarrow> (exn + bool) \<times> world" where
  "share_table_with_target_account data w =
     (let source_lf_client = (source_accountid data, source_region data)
      in case revoke_iamallowedgroups_super_permission_from_table source_lf_client
                (source_accountid data) (source_database data) (source_tablename data) w of
           (Inl e, w1) \<Rightarrow> (Inl e, w1)
         | (Inr u, w1) \<Rightarrow>
             (case grant_permissions_to_table source_lf_client (target_accountid data)
                     (source_database data) (source_tablename data)
                     [''DESCRIBE'', ''SELECT''] (Some [''DESCRIBE'', ''SELECT'']) w1 of
                (Inl e, w2) \<Rightarrow> (Inl e, w2)
              | (Inr u', w2) \<Rightarrow> (Inr True, w2)))"


section \<open>Properties of the batch revoke\<close>

lemma concat_chunks_take:
  "concat (map (\<lambda>i. take m (drop i xs)) (map (\<lambda>k. m * k) [0 ..< n])) = take (m * n) xs"
proof (induction n)
  case 0
  then show ?case by simp
next
  case (Suc n)
  have "take (m * n + m) xs = take (m * n) xs @ take m (drop (m * n) xs)"
    by (simp add: take_add)
  with Suc show ?case by (simp add: add.commute)
qed

lemma entries_chunks_concat: "concat (entries_chunks es) = es"
  unfolding entries_chunks_def concat_chunks_take by simp

lemma entries_chunks_length: "length (entries_chunks es) = (length es + 19) div 20"
  by (simp add: entries_chunks_def)

lemma entries_chunks_bounds:
  "c \<in> set (entries_chunks es) \<Longrightarrow> c \<noteq> [] \<and> length c \<le> 20"
  by (auto simp: entries_chunks_def)

lemma reraise_iff: "isl (reraise_on_failures e fs) \<longleftrightarrow> (\<exists>f\<in>set fs. \<not> benign f)"
  by (induction fs) auto

lemma reraise_ClientErr: "reraise_on_failures e fs = Inl x \<Longrightarrow> \<exists>e'. x = ClientErr e'"
  by (induction fs) (auto split: if_splits)

lemma lf_batch_revoke_calls:
  "lf_batch_revoke_permissions client acc c w = (r, w')
     \<Longrightarrow> lf_revoke_calls w' = lf_revoke_calls w @ [(client, acc, c)]"
  by (auto simp: lf_batch_revoke_permissions_def Let_def split: list.splits)

lemma lf_batch_revoke_answers:
  "lf_batch_revoke_permissions client acc c w = (r, w')
     \<Longrightarrow> (lf_revoke_answers w = [] \<and> r = Inr [] \<and> lf_revoke_answers w' = [])
         \<or> lf_revoke_answers w = r # lf_revoke_answers w'"
  by (auto simp: lf_batch_revoke_permissions_def Let_def split: list.splits)

lemma revoke_chunks_calls:
  "revoke_chunks client acc cs fs w = ((r, fs'), w') \<Longrightarrow>
     \<exists>k \<le> length cs.
        lf_revoke_calls w' = lf_revoke_calls w @ map (\<lambda>c. (client, acc, c)) (take k cs)
        \<and> (r = None \<longrightarrow> k = length cs)"
proof (induction cs arbitrary: fs w)
  case Nil
  then show ?case by simp
next
  case (Cons c cs)
  obtain a w1 where step: "lf_batch_revoke_permissions client acc c w = (a, w1)"
    by (cases "lf_batch_revoke_permissions client acc c w")
  note c1 = lf_batch_revoke_calls[OF step]
  show ?case
  proof (cases a)
    case (Inl e)
    with Cons.prems step have "w' = w1" "r \<noteq> None" by auto
    with c1 show ?thesis by (intro exI[of _ 1]) auto
  next
    case (Inr resp)
    with Cons.prems step
    have "revoke_chunks client acc cs (fs @ resp) w1 = ((r, fs'), w')" by simp
    from Cons.IH[OF this] obtain k where k: "k \<le> length cs"
      "lf_revoke_calls w' = lf_revoke_calls w1 @ map (\<lambda>c. (client, acc, c)) (take k cs)"
      "r = None \<longrightarrow> k = length cs" by blast
    then show ?thesis using c1 by (intro exI[of _ "Suc k"]) simp
  qed
qed

lemma revoke_chunks_failures:
  "snd (fst (revoke_chunks client acc cs fs w))
     = fs @ failures_before_error (take (length cs) (lf_revoke_answers w))"
proof (induction cs arbitrary: fs w)
  case Nil
  then show ?case by simp
next
  case (Cons c cs)
  obtain a w1 where step: "lf_batch_revoke_permissions client acc c w = (a, w1)"
    by (cases "lf_batch_revoke_permissions client acc c w")
  from lf_batch_revoke_answers[OF step] show ?case
  proof
    assume e: "lf_revoke_answers w = [] \<and> a = Inr [] \<and> lf_revoke_answers w1 = []"
    then show ?thesis using step Cons.IH[of "fs @ []" w1] by simp
  next
    assume ne: "lf_revoke_answers w = a # lf_revoke_answers w1"
    show ?thesis
    proof (cases a)
      case (Inl e)
      then show ?thesis using step ne by simp
    next
      case (Inr resp)
      then show ?thesis using step ne Cons.IH[of "fs @ resp" w1] by simp
    qed
  qed
qed

lemma reported_failures_script:
  "reported_failures client acc es w
     = failures_before_error (take (length (entries_chunks es)) (lf_revoke_answers w))"
  by (simp add: reported_failures_def revoke_chunks_failures)

lemma batch_revoke_raises_iff:
  "isl (fst (batch_revoke_permissions client acc es w))
     \<longleftrightarrow> (\<exists>f\<in>set (reported_failures client acc es w). \<not> benign f)"
  by (auto simp: batch_revoke_permissions_def reported_failures_def reraise_iff
           split: prod.splits option.splits)

lemma revoke_chunks_no_error:
  "revoke_chunks client acc cs fs w = ((r, fs'), w')
     \<Longrightarrow> \<forall>a\<in>set (take (length cs) (lf_revoke_answers w)). \<not> isl a \<Longrightarrow> r = None"
proof (induction cs arbitrary: fs w)
  case Nil
  then show ?case by simp
next
  case (Cons c cs)
  obtain a w1 where step: "lf_batch_revoke_permissions client acc c w = (a, w1)"
    by (cases "lf_batch_revoke_permissions client acc c w")
  from lf_batch_revoke_answers[OF step] show ?case
  proof
    assume e: "lf_revoke_answers w = [] \<and> a = Inr [] \<and> lf_revoke_answers w1 = []"
    then show ?thesis using step Cons.prems(1) Cons.IH[of "fs @ []" w1] by simp
  next
    assume ne: "lf_revoke_answers w = a # lf_revoke_answers w1"
    with Cons.prems(2) obtain resp where a: "a = Inr resp"
      by (cases a) auto
    with ne Cons.prems(2)
    have "\<forall>a\<in>set (take (length cs) (lf_revoke_answers w1)). \<not> isl a" by simp
    with Cons.IH[of "fs @ resp" w1] Cons.prems(1) step a show ?thesis by simp
  qed
qed

lemma batch_revoke_calls:
  "\<exists>k \<le> length (entries_chunks es).
      lf_revoke_calls (snd (batch_revoke_permissions client acc es w))
        = lf_revoke_calls w @ map (\<lambda>c. (client, acc, c)) (take k (entries_chunks es))
      \<and> ((\<forall>a\<in>set (take (length (entries_chunks es)) (lf_revoke_answers w)). \<not> isl a)
           \<longrightarrow> k = length (entries_chunks es))"
proof -
  obtain r fs' w' where rc:
    "revoke_chunks client acc (entries_chunks es) [] w = ((r, fs'), w')"
    by (metis surj_pair)
  have w': "snd (batch_revoke_permissions client acc es w) = w'"
    using rc by (simp add: batch_revoke_permissions_def split: option.splits)
  from revoke_chunks_calls[OF rc] obtain k where k: "k \<le> length (entries_chunks es)"
    "lf_revoke_calls w' = lf_revoke_calls w @ map (\<lambda>c. (client, acc, c)) (take k (entries_chunks es))"
    "r = None \<longrightarrow> k = length (entries_chunks es)" by blast
  show ?thesis using k revoke_chunks_no_error[OF rc] unfolding w' by blast
qed

lemma batch_revoke_ClientErr:
  "fst (batch_revoke_permissions client acc es w) = Inl x \<Longrightarrow> \<exists>e. x = ClientErr e"
  by (auto simp: batch_revoke_permissions_def split: prod.splits option.splits if_splits
           dest: reraise_ClientErr)

lemma failures_before_error_Inl:
  "failures_before_error (map Inr fss @ Inl e # xs) = concat fss"
  by (induction fss) simp_all

text \<open>
  C5. \<^verbatim>\<open>batch_revoke_permissions\<close> cuts the entries into consecutive chunks: their
  concatenation is the entry list, each chunk has between 1 and 20 entries, 45 entries
  give 3 chunks. The requests sent are these chunks in order, all of them when no
  request raises. The call raises exactly when one of the failures reported before the
  loop ended is not a benign one (code \<^verbatim>\<open>InvalidInputException\<close> with a message
  containing \<^verbatim>\<open>Grantee has no permissions\<close> or \<^verbatim>\<open>No permissions revoked\<close>); when
  every reported failure is benign it returns.
\<close>

theorem batch_revoke_permissions_chunks_and_failures:
  "concat (entries_chunks es) = es
   \<and> (\<forall>c\<in>set (entries_chunks es). c \<noteq> [] \<and> length c \<le> 20)
   \<and> (length es = 45 \<longrightarrow> length (entries_chunks es) = 3)
   \<and> (\<exists>k \<le> length (entries_chunks es).
         lf_revoke_calls (snd (batch_revoke_permissions client acc es w))
           = lf_revoke_calls w @ map (\<lambda>c. (client, acc, c)) (take k (entries_chunks es))
         \<and> ((\<forall>a\<in>set (take (length (entries_chunks es)) (lf_revoke_answers w)). \<not> isl a)
              \<longrightarrow> k = length (entries_chunks es)))
   \<and> (isl (fst (batch_revoke_permissions client acc es w))
        \<longleftrightarrow> (\<exists>f\<in>set (failures_before_error
                          (take (length (entries_chunks es)) (lf_revoke_answers w))).
               \<not> benign f))"
proof (intro conjI)
  show "concat (entries_chunks es) = es" by (rule entries_chunks_concat)
  show "\<forall>c\<in>set (entries_chunks es). c \<noteq> [] \<and> length c \<le> 20"
    using entries_chunks_bounds by blast
  show "length es = 45 \<longrightarrow> length (entries_chunks es) = 3"
    by (simp add: entries_chunks_length)
  show "\<exists>k \<le> length (entries_chunks es).
         lf_revoke_calls (snd (batch_revoke_permissions client acc es w))
           = lf_revoke_calls w @ map (\<lambda>c. (client, acc, c)) (take k (entries_chunks es))
         \<and> ((\<forall>a\<in>set (take (length (entries_chunks es)) (lf_revoke_answers w)). \<not> isl a)
              \<longrightarrow> k = length (entries_chunks es))"
    by (rule batch_revoke_calls)
  show "isl (fst (batch_revoke_permissions client acc es w))
        \<longleftrightarrow> (\<exists>f\<in>set (failures_before_error
                          (take (length (entries_chunks es)) (lf_revoke_answers w))).
               \<not> benign f)"
    using batch_revoke_raises_iff[of client acc es w]
    by (simp add: reported_failures_script)
qed

text \<open>
  The theorem at 45 entries and a service that answers the three requests with no
  failure, a benign failure and a failure of another kind: the call raises.
\<close>

theorem batch_revoke_permissions_chunks_and_failures_witness:
  "length (map (\<lambda>i. \<lparr> ent_Id = i, ent_Principal = ''111122223333'',
                        ent_Resource = TableWithColumns ''db'' ''t'' ''444455556666'',
                        ent_Permissions = [''SELECT''],
                        ent_PermissionsWithGrantOption = Some [''SELECT''] \<rparr>) [0 ..< 45]) = 45
   \<and> length (entries_chunks
        (map (\<lambda>i. \<lparr> ent_Id = i, ent_Principal = ''111122223333'',
                      ent_Resource = TableWithColumns ''db'' ''t'' ''444455556666'',
                      ent_Permissions = [''SELECT''],
                      ent_PermissionsWithGrantOption = Some [''SELECT''] \<rparr>) [0 ..< 45])) = 3
   \<and> \<not> benign \<lparr> fail_ErrorCode = ''AccessDeniedException'', fail_ErrorMessage = ''denied'' \<rparr>
   \<and> isl (fst (batch_revoke_permissions (''444455556666'', ''eu-west-1'') ''111122223333''
        (map (\<lambda>i. \<lparr> ent_Id = i, ent_Principal = ''111122223333'',
                      ent_Resource = TableWithColumns ''db'' ''t'' ''444455556666'',
                      ent_Permissions = [''SELECT''],
                      ent_PermissionsWithGrantOption = Some [''SELECT''] \<rparr>) [0 ..< 45])
        (empty_world\<lparr>lf_revoke_answers :=
           [Inr [],
            Inr [\<lparr> fail_ErrorCode = ''InvalidInputException'',
                   fail_ErrorMessage = ''No permissions revoked'' \<rparr>],
            Inr [\<lparr> fail_ErrorCode = ''AccessDeniedException'',
                   fail_ErrorMessage = ''denied'' \<rparr>]]\<rparr>)))"
  using batch_revoke_permissions_chunks_and_failures
    [of "map (\<lambda>i. \<lparr> ent_Id = i, ent_Principal = ''111122223333'',
                      ent_Resource = TableWithColumns ''db'' ''t'' ''444455556666'',
                      ent_Permissions = [''SELECT''],
                      ent_PermissionsWithGrantOption = Some [''SELECT''] \<rparr>) [0 ..< 45]"
        "(''444455556666'', ''eu-west-1'')" "''111122223333''"
        "empty_world\<lparr>lf_revoke_answers :=
           [Inr [],
            Inr [\<lparr> fail_ErrorCode = ''InvalidInputException'',
                   fail_ErrorMessage = ''No permissions revoked'' \<rparr>],
            Inr [\<lparr> fail_ErrorCode = ''AccessDeniedException'',
                   fail_ErrorMessage = ''denied'' \<rparr>]]\<rparr>"]
  by (simp add: benign_def)

text \<open>
  C10. When a request of \<^verbatim>\<open>batch_revoke_permissions\<close> raises a \<^verbatim>\<open>ClientError\<close>
  and the requests answered before it reported no failure, the error is caught and the
  call returns: the \<^verbatim>\<open>except\<close> block raises only from inside its loop over the
  recorded failures.
\<close>

theorem batch_revoke_permissions_swallows_api_error:
  assumes "lf_revoke_answers w = map Inr fss @ Inl e # rest"
      and "length fss < length (entries_chunks es)"
      and "concat fss = []"
  shows "fst (batch_revoke_permissions client acc es w) = Inr ()"
proof -
  let ?n = "length (entries_chunks es)"
  have "take ?n (lf_revoke_answers w)
          = map Inr fss @ Inl e # take (?n - Suc (length fss)) rest"
    using assms(1,2) by (simp add: take_Cons')
  then have "reported_failures client acc es w = []"
    using assms(3) by (simp add: reported_failures_script failures_before_error_Inl)
  then have "\<not> isl (fst (batch_revoke_permissions client acc es w))"
    by (simp add: batch_revoke_raises_iff)
  then show ?thesis
    by (cases "fst (batch_revoke_permissions client acc es w)") auto
qed

theorem batch_revoke_permissions_swallows_api_error_witness:
  "lf_revoke_answers (empty_world\<lparr>lf_revoke_answers :=
       [Inl \<lparr> err_Code = ''ThrottlingException'', err_Message = ''Rate exceeded'' \<rparr>]\<rparr>)
     = map Inr [] @ Inl \<lparr> err_Code = ''ThrottlingException'', err_Message = ''Rate exceeded'' \<rparr> # []
   \<and> length ([] :: failure list list)
       < length (entries_chunks
           [\<lparr> ent_Id = 0, ent_Principal = ''EVERYONE'',
              ent_Resource = Table ''db'' ''t'' ''444455556666'',
              ent_Permissions = [''ALL''], ent_PermissionsWithGrantOption = Some [] \<rparr>])
   \<and> fst (batch_revoke_permissions (''444455556666'', ''eu-west-1'') ''444455556666''
           [\<lparr> ent_Id = 0, ent_Principal = ''EVERYONE'',
              ent_Resource = Table ''db'' ''t'' ''444455556666'',
              ent_Permissions = [''ALL''], ent_PermissionsWithGrantOption = Some [] \<rparr>]
           (empty_world\<lparr>lf_revoke_answers :=
              [Inl \<lparr> err_Code = ''ThrottlingException'', err_Message = ''Rate exceeded'' \<rparr>]\<rparr>))
       = Inr ()"
  using batch_revoke_permissions_swallows_api_error
    [of "empty_world\<lparr>lf_revoke_answers :=
           [Inl \<lparr> err_Code = ''ThrottlingException'', err_Message = ''Rate exceeded'' \<rparr>]\<rparr>"
        "[]" "\<lparr> err_Code = ''ThrottlingException'', err_Message = ''Rate exceeded'' \<rparr>" "[]"
        "[\<lparr> ent_Id = 0, ent_Principal = ''EVERYONE'',
            ent_Resource = Table ''db'' ''t'' ''444455556666'',
            ent_Permissions = [''ALL''], ent_PermissionsWithGrantOption = Some [] \<rparr>]"
        "(''444455556666'', ''eu-west-1'')" "''444455556666''"]
  by (simp add: entries_chunks_def)

end
